theory Spec2Isabelle
  imports Main "HOL-Library.AList"
begin

section \<open>Python primitives used by the analysis engine\<close>

text \<open>
  A Python \<open>str\<close> is modelled as a \<open>string\<close>; every \<open>char\<close> stands for one code point
  (the code points below 256), so that \<open>length\<close> is Python's \<open>len\<close>.
\<close>

definition startswith :: "string \<Rightarrow> string \<Rightarrow> bool" where
  \<comment> \<open>\<open>s.startswith(p)\<close>: the first argument is the prefix\<close>
  "startswith p s = (take (length p) s = p)"

definition startswith_any :: "string list \<Rightarrow> string \<Rightarrow> bool" where
  \<comment> \<open>\<open>s.startswith((p1, p2, ...))\<close> with a tuple of prefixes\<close>
  "startswith_any ps s = list_ex (\<lambda>p. startswith p s) ps"

function str_replace :: "string \<Rightarrow> string \<Rightarrow> string \<Rightarrow> string" where
  \<comment> \<open>\<open>s.replace(old, new)\<close>: every non-overlapping occurrence, scanning from the left;
      an empty \<open>old\<close> matches before every character and at the end\<close>
  "str_replace old new s =
     (if old = [] then new @ concat (map (\<lambda>c. c # new) s)
      else if startswith old s then new @ str_replace old new (drop (length old) s)
      else (case s of [] \<Rightarrow> [] | c # cs \<Rightarrow> c # str_replace old new cs))"
  by pat_completeness auto
termination
proof (relation "measure (\<lambda>(old, new, s). length s)")
  show "wf (measure (\<lambda>(old, new, s). length s))" by simp
next
  fix old new s :: string
  assume "old \<noteq> []" and "startswith old s"
  then have "s \<noteq> []" by (auto simp: startswith_def)
  with \<open>old \<noteq> []\<close>
  show "((old, new, drop (length old) s), (old, new, s)) \<in> measure (\<lambda>(old, new, s). length s)"
    by simp
next
  fix old new s :: string and c cs
  assume "s = c # cs"
  then show "((old, new, cs), (old, new, s)) \<in> measure (\<lambda>(old, new, s). length s)"
    by simp
qed

declare str_replace.simps [simp del]

definition fromkeys :: "'a list \<Rightarrow> ('a \<times> unit) list" where
  \<comment> \<open>\<open>dict.fromkeys(ks)\<close>: the keys are inserted from left to right; a dict keeps
      the position of a key's first insertion\<close>
  "fromkeys ks = fold (\<lambda>k d. AList.update k () d) ks []"

definition keys :: "('a \<times> 'b) list \<Rightarrow> 'a list" where
  \<comment> \<open>\<open>list(d)\<close> of a dict: its keys in insertion order\<close>
  "keys d = map fst d"

fun join :: "string \<Rightarrow> string list \<Rightarrow> string" where
  \<comment> \<open>\<open>sep.join(xs)\<close>\<close>
  "join sep [] = []"
| "join sep [x] = x"
| "join sep (x # y # ys) = x @ sep @ join sep (y # ys)"

fun str_nat :: "nat \<Rightarrow> string" where
  \<comment> \<open>\<open>str(n)\<close> for a length: decimal digits\<close>
  "str_nat n =
     (if n < 10 then [char_of (48 + n)]
      else str_nat (n div 10) @ [char_of (48 + n mod 10)])"

section \<open>URL normalizer (\<open>seo_analyzer.py\<close>, lines 12 to 28)\<close>

definition normalize_url :: "string \<Rightarrow> string" where
  "normalize_url url =
     (if \<not> startswith_any [''http://'', ''https://''] url then ''https://'' @ url
      else url)"

definition get_url_variations :: "string \<Rightarrow> string list" where
  "get_url_variations url =
     (let normalized = normalize_url url;
          variations =
            [url,
             normalized,
             if startswith_any [''http://'', ''https://''] url
             then str_replace ''http://'' [] (str_replace ''https://'' [] url)
             else url]
      in keys (fromkeys variations))"

section \<open>Data model\<close>

text \<open>
  A Python dict is an association list in insertion order: \<open>d[k] = v\<close> is
  \<open>AList.update k v d\<close> (an existing key keeps its position, a new key goes to the end),
  \<open>d.get(k)\<close> is \<open>map_of d k\<close>, \<open>k in d\<close> is \<open>k \<in> set (keys d)\<close> and \<open>not d\<close> is \<open>d = []\<close>.
\<close>

type_synonym tags = "(string \<times> string) list"

record seo_document =
  url :: "string option"  \<comment> \<open>\<open>self.url\<close>, which is \<open>None\<close> until a fetch succeeds\<close>
  title :: string
  meta_description :: string
  meta_keywords :: string
  og_tags :: tags
  twitter_tags :: tags
  h1_tags :: "string list"
  canonical :: string

datatype seo_data =
    Empty_dict  \<comment> \<open>the dict \<open>{}\<close>\<close>
  | Seo_dict seo_document  \<comment> \<open>the dict with the eight keys built by \<open>extract_seo_tags\<close>\<close>

text \<open>\<open>seo_data.get(key, default)\<close> for each key the code reads.\<close>

fun get_url :: "seo_data \<Rightarrow> string option \<Rightarrow> string option" where
  "get_url Empty_dict dflt = dflt"
| "get_url (Seo_dict d) dflt = url d"

fun get_title :: "seo_data \<Rightarrow> string \<Rightarrow> string" where
  "get_title Empty_dict dflt = dflt"
| "get_title (Seo_dict d) dflt = title d"

fun get_meta_description :: "seo_data \<Rightarrow> string \<Rightarrow> string" where
  "get_meta_description Empty_dict dflt = dflt"
| "get_meta_description (Seo_dict d) dflt = meta_description d"

fun get_meta_keywords :: "seo_data \<Rightarrow> string \<Rightarrow> string" where
  "get_meta_keywords Empty_dict dflt = dflt"
| "get_meta_keywords (Seo_dict d) dflt = meta_keywords d"

fun get_og_tags :: "seo_data \<Rightarrow> tags \<Rightarrow> tags" where
  "get_og_tags Empty_dict dflt = dflt"
| "get_og_tags (Seo_dict d) dflt = og_tags d"

fun get_twitter_tags :: "seo_data \<Rightarrow> tags \<Rightarrow> tags" where
  "get_twitter_tags Empty_dict dflt = dflt"
| "get_twitter_tags (Seo_dict d) dflt = twitter_tags d"

fun get_h1_tags :: "seo_data \<Rightarrow> string list \<Rightarrow> string list" where
  "get_h1_tags Empty_dict dflt = dflt"
| "get_h1_tags (Seo_dict d) dflt = h1_tags d"

fun get_canonical :: "seo_data \<Rightarrow> string \<Rightarrow> string" where
  "get_canonical Empty_dict dflt = dflt"
| "get_canonical (Seo_dict d) dflt = canonical d"

record category_result =
  status :: string
  message :: string
  score :: int

type_synonym analysis = "(string \<times> category_result) list"

section \<open>Quality analyzer and score (\<open>seo_analyzer.py\<close>, lines 110 to 180)\<close>

definition analyze_seo_quality :: "seo_data \<Rightarrow> analysis" where
  \<comment> \<open>the method reads \<open>self.seo_data\<close> only, which is the argument\<close>
  "analyze_seo_quality sd =
     (let analysis =
            [(''title'', \<lparr>status = ''error'', message = '''', score = 0\<rparr>),
             (''description'', \<lparr>status = ''error'', message = '''', score = 0\<rparr>),
             (''og_tags'', \<lparr>status = ''error'', message = '''', score = 0\<rparr>),
             (''twitter_tags'', \<lparr>status = ''error'', message = '''', score = 0\<rparr>),
             (''h1_structure'', \<lparr>status = ''error'', message = '''', score = 0\<rparr>)];
          t = get_title sd '''';
          analysis = AList.update ''title''
            (if t = [] then
               \<lparr>status = ''error'', message = ''Missing title tag'', score = 0\<rparr>
             else if length t < 30 then
               \<lparr>status = ''warning'',
                message = ''Title too short ('' @ str_nat (length t)
                          @ '' chars). Optimal: 50-60 chars'',
                score = 10\<rparr>
             else if length t > 60 then
               \<lparr>status = ''warning'',
                message = ''Title too long ('' @ str_nat (length t)
                          @ '' chars). Optimal: 50-60 chars'',
                score = 15\<rparr>
             else
               \<lparr>status = ''success'',
                message = ''Title length optimal ('' @ str_nat (length t) @ '' chars)'',
                score = 20\<rparr>) analysis;
          description = get_meta_description sd '''';
          analysis = AList.update ''description''
            (if description = [] then
               \<lparr>status = ''error'', message = ''Missing meta description'', score = 0\<rparr>
             else if length description < 120 then
               \<lparr>status = ''warning'',
                message = ''Description too short ('' @ str_nat (length description)
                          @ '' chars). Optimal: 150-160 chars'',
                score = 10\<rparr>
             else if length description > 160 then
               \<lparr>status = ''warning'',
                message = ''Description too long ('' @ str_nat (length description)
                          @ '' chars). Optimal: 150-160 chars'',
                score = 15\<rparr>
             else
               \<lparr>status = ''success'',
                message = ''Description length optimal ('' @ str_nat (length description)
                          @ '' chars)'',
                score = 20\<rparr>) analysis;
          og = get_og_tags sd [];
          required_og = [''og:title'', ''og:description'', ''og:type'', ''og:url''];
          missing_og = filter (\<lambda>tag. tag \<notin> set (keys og)) required_og;
          analysis = AList.update ''og_tags''
            (if og = [] then
               \<lparr>status = ''error'', message = ''No Open Graph tags found'', score = 0\<rparr>
             else if missing_og \<noteq> [] then
               \<lparr>status = ''warning'',
                message = ''Missing OG tags: '' @ join '', '' missing_og,
                score = 10\<rparr>
             else
               \<lparr>status = ''success'',
                message = ''All essential Open Graph tags present'',
                score = 20\<rparr>) analysis;
          tw = get_twitter_tags sd [];
          required_twitter = [''twitter:card'', ''twitter:title'', ''twitter:description''];
          missing_twitter = filter (\<lambda>tag. tag \<notin> set (keys tw)) required_twitter;
          analysis = AList.update ''twitter_tags''
            (if tw = [] then
               \<lparr>status = ''error'', message = ''No Twitter Card tags found'', score = 0\<rparr>
             else if missing_twitter \<noteq> [] then
               \<lparr>status = ''warning'',
                message = ''Missing Twitter tags: '' @ join '', '' missing_twitter,
                score = 10\<rparr>
             else
               \<lparr>status = ''success'',
                message = ''All essential Twitter Card tags present'',
                score = 20\<rparr>) analysis;
          h1 = get_h1_tags sd [];
          analysis = AList.update ''h1_structure''
            (if h1 = [] then
               \<lparr>status = ''error'', message = ''No H1 tag found'', score = 0\<rparr>
             else if length h1 > 1 then
               \<lparr>status = ''warning'',
                message = ''Multiple H1 tags found ('' @ str_nat (length h1)
                          @ ''). Should have only one'',
                score = 10\<rparr>
             else
               \<lparr>status = ''success'',
                message = ''Single H1 tag found (optimal)'',
                score = 20\<rparr>) analysis
      in analysis)"

definition calculate_seo_score :: "analysis \<Rightarrow> int" where
  \<comment> \<open>\<open>sum(item['score'] for item in analysis.values())\<close>\<close>
  "calculate_seo_score a = sum_list (map (\<lambda>item. score item) (map snd a))"

section \<open>The parsed document and the analyzer object\<close>

definition is_space :: "char \<Rightarrow> bool" where
  \<comment> \<open>the characters \<open>str.strip()\<close> removes and the regular expression class \<open>\s\<close> matches\<close>
  "is_space c =
     (let n = (of_char c :: nat)
      in (9 \<le> n \<and> n \<le> 13) \<or> (28 \<le> n \<and> n \<le> 32) \<or> n = 133 \<or> n = 160)"

definition strip :: "string \<Rightarrow> string" where
  \<comment> \<open>\<open>s.strip()\<close>\<close>
  "strip s = rev (dropWhile is_space (rev (dropWhile is_space s)))"

definition lower_char :: "char \<Rightarrow> char" where
  "lower_char c =
     (let n = (of_char c :: nat)
      in if (65 \<le> n \<and> n \<le> 90) \<or> (192 \<le> n \<and> n \<le> 222 \<and> n \<noteq> 215)
         then char_of (n + 32) else c)"

definition lower :: "string \<Rightarrow> string" where
  \<comment> \<open>\<open>s.lower()\<close>\<close>
  "lower s = map lower_char s"

fun split_ws_aux :: "string \<Rightarrow> string \<Rightarrow> string list" where
  "split_ws_aux acc [] = (if acc = [] then [] else [rev acc])"
| "split_ws_aux acc (c # cs) =
     (if is_space c then (if acc = [] then [] else [rev acc]) @ split_ws_aux [] cs
      else split_ws_aux (c # acc) cs)"

definition split_ws :: "string \<Rightarrow> string list" where
  \<comment> \<open>the maximal runs of non-whitespace characters, as the parser splits a
      multi-valued attribute such as \<open>rel\<close>\<close>
  "split_ws s = split_ws_aux [] s"

text \<open>
  The parsed document is the external parser's tag tree. The code only asks it for the
  elements of a given name in document order, for an attribute of an element and for the
  text content of an element, so the tree is modelled as the list of its elements in
  document order, each with its (lower-cased) name, its attributes and its text content.
\<close>

record element =
  tag_name :: string
  attrs :: "(string \<times> string) list"
  text_content :: string  \<comment> \<open>\<open>get_text()\<close>\<close>

type_synonym soup = "element list"

definition find_all :: "string \<Rightarrow> soup \<Rightarrow> element list" where
  \<comment> \<open>\<open>soup.find_all(name)\<close>\<close>
  "find_all name sp = filter (\<lambda>e. tag_name e = name) sp"

definition find_first :: "string \<Rightarrow> soup \<Rightarrow> element option" where
  \<comment> \<open>\<open>soup.find(name)\<close>: the first such element or \<open>None\<close>\<close>
  "find_first name sp = List.find (\<lambda>e. tag_name e = name) sp"

definition attr_get :: "element \<Rightarrow> string \<Rightarrow> string \<Rightarrow> string" where
  \<comment> \<open>\<open>tag.get(key, default)\<close>\<close>
  "attr_get e k dflt = (case map_of (attrs e) k of None \<Rightarrow> dflt | Some v \<Rightarrow> v)"

definition rel_matches :: "string \<Rightarrow> element \<Rightarrow> bool" where
  \<comment> \<open>the filter \<open>rel=v\<close>: \<open>rel\<close> is a multi-valued attribute, which matches when one of its
      values or their concatenation with single spaces is \<open>v\<close>\<close>
  "rel_matches v e =
     (case map_of (attrs e) ''rel'' of
        None \<Rightarrow> False
      | Some r \<Rightarrow> v \<in> set (split_ws r) \<or> join '' '' (split_ws r) = v)"

definition find_link_rel :: "string \<Rightarrow> soup \<Rightarrow> element option" where
  \<comment> \<open>\<open>soup.find('link', rel=v)\<close>\<close>
  "find_link_rel v sp = List.find (\<lambda>e. tag_name e = ''link'' \<and> rel_matches v e) sp"

record analyzer =
  self_soup :: "soup option"
  self_url :: "string option"
  self_seo_data :: seo_data

definition init_analyzer :: analyzer where
  \<comment> \<open>\<open>SEOAnalyzer.__init__\<close>\<close>
  "init_analyzer = \<lparr>self_soup = None, self_url = None, self_seo_data = Empty_dict\<rparr>"

datatype fetch_error = Network_error | Other_error

definition fetch_html :: "analyzer \<Rightarrow> string \<Rightarrow> fetch_error + soup \<Rightarrow> fetch_error + bool \<times> analyzer"
  where
  \<comment> \<open>The request and the parse are the external collaborators' work: their outcome for the
      normalized URL is the third argument. A failure raises before anything is assigned.\<close>
  "fetch_html st u response =
     (case response of
        Inl e \<Rightarrow> Inl e
      | Inr sp \<Rightarrow> Inr (True, st\<lparr>self_soup := Some sp, self_url := Some (normalize_url u)\<rparr>))"

section \<open>Tag extractor (\<open>seo_analyzer.py\<close>, lines 61 to 108)\<close>

definition meta_name :: "element \<Rightarrow> string" where
  "meta_name m = lower (attr_get m ''name'' '''')"

definition meta_property :: "element \<Rightarrow> string" where
  "meta_property m = lower (attr_get m ''property'' '''')"

definition meta_content :: "element \<Rightarrow> string" where
  "meta_content m = attr_get m ''content'' ''''"

definition extract_meta :: "element \<Rightarrow> seo_document \<Rightarrow> seo_document" where
  \<comment> \<open>the body of the loop over the \<open>meta\<close> elements\<close>
  "extract_meta m seo =
     (let name = meta_name m;
          property_attr = meta_property m;
          content = meta_content m
      in if name = ''description'' then seo\<lparr>meta_description := content\<rparr>
         else if name = ''keywords'' then seo\<lparr>meta_keywords := content\<rparr>
         else if startswith ''og:'' property_attr
           then seo\<lparr>og_tags := AList.update property_attr content (og_tags seo)\<rparr>
         else if startswith ''twitter:'' name
           then seo\<lparr>twitter_tags := AList.update name content (twitter_tags seo)\<rparr>
         else seo)"

definition extract_seo_tags :: "analyzer \<Rightarrow> seo_data \<times> analyzer" where
  "extract_seo_tags st =
     (case self_soup st of
        None \<Rightarrow> (Empty_dict, st)
      | Some sp \<Rightarrow>
          (let seo = \<lparr>url = self_url st, title = '''', meta_description = '''',
                      meta_keywords = '''', og_tags = [], twitter_tags = [], h1_tags = [],
                      canonical = ''''\<rparr>;
               seo = (case find_first ''title'' sp of
                        None \<Rightarrow> seo
                      | Some title_tag \<Rightarrow> seo\<lparr>title := strip (text_content title_tag)\<rparr>);
               seo = fold extract_meta (find_all ''meta'' sp) seo;
               seo = seo\<lparr>h1_tags := map (\<lambda>h1. strip (text_content h1)) (find_all ''h1'' sp)\<rparr>;
               seo = (case find_link_rel ''canonical'' sp of
                        None \<Rightarrow> seo
                      | Some c \<Rightarrow> seo\<lparr>canonical := attr_get c ''href'' ''''\<rparr>)
           in (Seo_dict seo, st\<lparr>self_seo_data := Seo_dict seo\<rparr>)))"

section \<open>Preview resolver (\<open>seo_analyzer.py\<close>, lines 182 to 204)\<close>


definition or_else :: "string option \<Rightarrow> string \<Rightarrow> string" where
  \<comment> \<open>\<open>x or y\<close> for \<open>x\<close> a string or \<open>None\<close>: \<open>None\<close> and the empty string are false\<close>
  "or_else x y = (case x of None \<Rightarrow> y | Some s \<Rightarrow> if s \<noteq> [] then s else y)"



section \<open>Persistence (\<open>database.py\<close>, lines 65 to 98 and 129 to 176)\<close>

text \<open>
  The table \<open>seo_analyses\<close> is a list of rows, oldest insertion first. A column that the
  code reads with a guard against \<open>NULL\<close> is an option. A JSON column holds the value that
  \<open>json.dumps\<close> was given: the serialisation, the column and the decoding are the
  libraries' work, which returns lists and string-keyed mappings as they were written.
\<close>

record stored_row =
  row_url :: "string option"
  row_domain :: string
  row_title :: "string option"
  row_meta_description :: "string option"
  row_meta_keywords :: string
  row_og_tags :: "tags option"
  row_twitter_tags :: "tags option"
  row_h1_tags :: "string list option"
  row_canonical :: string
  row_seo_score :: int
  row_analysis_results :: "analysis option"
  row_analyzed_at :: nat

record database =
  db_available :: bool  \<comment> \<open>whether \<open>get_cursor\<close> obtains a cursor and the statement runs\<close>
  db_rows :: "stored_row list"

definition save_analysis ::
  "(string \<Rightarrow> string) \<Rightarrow> database \<Rightarrow> seo_data \<Rightarrow> analysis \<Rightarrow> int \<Rightarrow> nat \<Rightarrow> bool \<times> database"
  where
  \<comment> \<open>The first argument is the library's \<open>urlparse(u).netloc\<close>, which is empty for \<open>None\<close>.
      The \<open>INSERT\<close> statement gives no \<open>analyzed_at\<close>: the timestamp that the server
      assigns to the new row is the last argument.\<close>
  "save_analysis netloc db sd an sc now =
     (if \<not> db_available db then (False, db)
      else
        (let domain = (case get_url sd (Some '''') of None \<Rightarrow> '''' | Some u \<Rightarrow> netloc u)
         in (True,
             db\<lparr>db_rows := db_rows db @
                [\<lparr>row_url = get_url sd (Some ''''),
                  row_domain = domain,
                  row_title = Some (get_title sd ''''),
                  row_meta_description = Some (get_meta_description sd ''''),
                  row_meta_keywords = get_meta_keywords sd '''',
                  row_og_tags = Some (get_og_tags sd []),
                  row_twitter_tags = Some (get_twitter_tags sd []),
                  row_h1_tags = Some (get_h1_tags sd []),
                  row_canonical = get_canonical sd '''',
                  row_seo_score = sc,
                  row_analysis_results = Some an,
                  row_analyzed_at = now\<rparr>]\<rparr>)))"

definition safe_json_loads :: "'a list option \<Rightarrow> 'a list" where
  \<comment> \<open>\<open>None\<close> gives the empty dict; a value written by \<open>json.dumps\<close> is returned decoded\<close>
  "safe_json_loads data = (case data of None \<Rightarrow> [] | Some v \<Rightarrow> v)"

record analysis_record =
  ar_url :: "string option"
  ar_title :: string
  ar_meta_description :: string
  ar_og_tags :: tags
  ar_twitter_tags :: tags
  ar_h1_tags :: "string list"
  ar_seo_score :: int
  ar_analysis_results :: analysis
  ar_analyzed_at :: nat

definition get_analysis_by_url ::
  "(stored_row list \<Rightarrow> stored_row) \<Rightarrow> database \<Rightarrow> string \<Rightarrow> analysis_record option" where
  \<comment> \<open>\<open>ORDER BY analyzed_at DESC LIMIT 1\<close> returns one of the matching rows with the
      greatest timestamp; which one is the database's choice, the first argument. A failure
      to obtain a cursor is caught and gives \<open>None\<close>. The guard on \<open>h1_tags\<close> yields \<open>[]\<close> for
      \<open>NULL\<close> and for a decoded empty list, which is the stored list in both cases.\<close>
  "get_analysis_by_url pick db u =
     (if \<not> db_available db then None
      else
        (let unique_variations = get_url_variations u;
             matching =
               filter (\<lambda>r. case row_url r of None \<Rightarrow> False
                           | Some v \<Rightarrow> v \<in> set unique_variations) (db_rows db);
             latest =
               filter (\<lambda>r. \<forall>r'\<in>set matching. row_analyzed_at r' \<le> row_analyzed_at r)
                 matching
         in if latest = [] then None
            else
              (let result = pick latest
               in Some
                    \<lparr>ar_url = row_url result,
                     ar_title = or_else (row_title result) '''',
                     ar_meta_description = or_else (row_meta_description result) '''',
                     ar_og_tags = safe_json_loads (row_og_tags result),
                     ar_twitter_tags = safe_json_loads (row_twitter_tags result),
                     ar_h1_tags =
                       (if row_h1_tags result \<noteq> None
                        then safe_json_loads (row_h1_tags result) else []),
                     ar_seo_score = row_seo_score result,
                     ar_analysis_results = safe_json_loads (row_analysis_results result),
                     ar_analyzed_at = row_analyzed_at result\<rparr>)))"

section \<open>Example inputs\<close>

definition example_doc :: "string \<Rightarrow> string \<Rightarrow> seo_document" where
  \<comment> \<open>a document with the given title and meta description and nothing else\<close>
  "example_doc t d =
     \<lparr>url = Some ''https://example.com'', title = t, meta_description = d,
      meta_keywords = '''', og_tags = [], twitter_tags = [], h1_tags = [], canonical = ''''\<rparr>"

definition tagged_doc :: "tags \<Rightarrow> tags \<Rightarrow> seo_document" where
  \<comment> \<open>a document with title \<open>D\<close>, meta description \<open>M\<close> and the given tag mappings\<close>
  "tagged_doc og tw = (example_doc ''D'' ''M'')\<lparr>og_tags := og, twitter_tags := tw\<rparr>"


definition simple_netloc :: "string \<Rightarrow> string" where
  \<comment> \<open>a stand-in for the library's \<open>urlparse(u).netloc\<close> in the examples: what follows a
      lower-case \<open>http\<close> or \<open>https\<close> scheme up to the next \<open>/\<close>, \<open>?\<close> or \<open>#\<close>\<close>
  "simple_netloc u =
     takeWhile (\<lambda>c. c \<notin> set ''/?#'')
       (if startswith ''https://'' u then drop 8 u
        else if startswith ''http://'' u then drop 7 u else [])"

definition meta_tag :: "(string \<times> string) list \<Rightarrow> element" where
  \<comment> \<open>a \<open>meta\<close> element with the given attributes\<close>
  "meta_tag as = \<lparr>tag_name = ''meta'', attrs = as, text_content = ''''\<rparr>"

definition example_soup :: soup where
  \<comment> \<open>a page with a viewport \<open>meta\<close> element and a paragraph, and no SEO tag\<close>
  "example_soup =
     [meta_tag [(''name'', ''viewport''), (''content'', ''width=device-width'')],
      \<lparr>tag_name = ''p'', attrs = [], text_content = ''Hello''\<rparr>]"

definition strip_leading_scheme :: "string \<Rightarrow> string" where
  \<comment> \<open>The third candidate in the words of the specification, for comparison with the
      code: only a leading \<open>http://\<close> or \<open>https://\<close> is removed, when there is one.\<close>
  "strip_leading_scheme raw =
     (if startswith ''https://'' raw then drop (length ''https://'') raw
      else if startswith ''http://'' raw then drop (length ''http://'') raw
      else raw)"

definition example_db :: database where
  \<comment> \<open>a database with one older analysis of \<open>example.com\<close>, stored without scheme\<close>
  "example_db =
     \<lparr>db_available = True,
      db_rows =
        [\<lparr>row_url = Some ''example.com'', row_domain = '''', row_title = Some ''Old'',
          row_meta_description = None, row_meta_keywords = '''', row_og_tags = None,
          row_twitter_tags = None, row_h1_tags = None, row_canonical = '''',
          row_seo_score = 10, row_analysis_results = None, row_analyzed_at = 3\<rparr>]\<rparr>"

definition keywords_doc :: "string \<Rightarrow> string \<Rightarrow> seo_document" where
  \<comment> \<open>a document with the given meta keywords and canonical URL\<close>
  "keywords_doc k c =
     (tagged_doc [(''og:title'', ''OG'')] [(''twitter:card'', ''c'')])
       \<lparr>meta_keywords := k, h1_tags := [''H''], canonical := c\<rparr>"

definition meta_page :: soup where
  \<comment> \<open>a page whose \<open>meta\<close> elements repeat keys and stand between other elements\<close>
  "meta_page =
     [\<lparr>tag_name = ''title'', attrs = [], text_content = ''Page''\<rparr>,
      meta_tag [(''property'', ''og:title''), (''content'', ''first'')],
      meta_tag [(''name'', ''Description''), (''property'', ''og:image''), (''content'', ''D1'')],
      \<lparr>tag_name = ''p'', attrs = [], text_content = ''Hello''\<rparr>,
      meta_tag [(''name'', ''twitter:card''), (''content'', ''a'')],
      meta_tag [(''name'', ''keywords''), (''content'', ''K1'')],
      meta_tag [(''property'', ''OG:Title''), (''content'', ''second'')],
      meta_tag [(''name'', ''description''), (''content'', ''D2'')],
      meta_tag [(''name'', ''Twitter:Card''), (''property'', ''article:tag''), (''content'', ''b'')],
      meta_tag [(''name'', ''Keywords''), (''content'', ''K2'')],
      meta_tag [(''name'', ''viewport''), (''content'', ''v'')]]"

definition meta_page_analyzer :: analyzer where
  \<comment> \<open>the analyzer after \<open>meta_page\<close> was fetched\<close>
  "meta_page_analyzer =
     \<lparr>self_soup = Some meta_page, self_url = Some ''https://example.com'',
      self_seo_data = Empty_dict\<rparr>"

section \<open>Properties\<close>

lemma startswith_append: "startswith p (p @ s)"
  by (simp add: startswith_def)

lemma normalize_url_has_scheme:
  "startswith_any [''http://'', ''https://''] (normalize_url s)"
  using startswith_append [of "''https://''" s]
  by (simp add: normalize_url_def startswith_any_def)

lemma normalize_url_idem: "normalize_url (normalize_url s) = normalize_url s"
  using normalize_url_has_scheme [of s] by (simp add: normalize_url_def [of "normalize_url s"])

text \<open>
  Claim C7. A string that starts with neither \<open>http://\<close> nor \<open>https://\<close> is normalized by
  prepending \<open>https://\<close>; a string that starts with one of them is returned unchanged; and
  normalizing twice is the same as normalizing once.
\<close>

theorem normalize_url_spec:
  "(\<not> (startswith ''http://'' s \<or> startswith ''https://'' s)
      \<longrightarrow> normalize_url s = ''https://'' @ s)
   \<and> ((startswith ''http://'' s \<or> startswith ''https://'' s) \<longrightarrow> normalize_url s = s)
   \<and> normalize_url (normalize_url s) = normalize_url s"
  by (simp add: normalize_url_idem) (simp add: normalize_url_def startswith_any_def)

theorem normalize_url_spec_witness:
  "\<not> (startswith ''http://'' ''example.com'' \<or> startswith ''https://'' ''example.com'')
   \<and> normalize_url ''example.com'' = ''https://example.com''
   \<and> (startswith ''http://'' ''http://a.b'' \<or> startswith ''https://'' ''http://a.b'')
   \<and> normalize_url ''http://a.b'' = ''http://a.b''
   \<and> normalize_url (normalize_url ''example.com'') = normalize_url ''example.com''"
  using normalize_url_spec [of "''example.com''"] normalize_url_spec [of "''http://a.b''"]
  by (simp add: startswith_def normalize_url_def startswith_any_def)

subsection \<open>Quality analyzer\<close>

lemma analysis_shape:
  "\<exists>t d og tw h.
     analyze_seo_quality sd =
       [(''title'', t), (''description'', d), (''og_tags'', og), (''twitter_tags'', tw),
        (''h1_structure'', h)]"
  by (simp add: analyze_seo_quality_def Let_def)

lemma title_category:
  "\<exists>r. map_of (analyze_seo_quality sd) ''title'' = Some r
     \<and> (get_title sd [] = [] \<longrightarrow> status r = ''error'' \<and> score r = 0)
     \<and> (get_title sd [] \<noteq> [] \<and> length (get_title sd []) < 30
          \<longrightarrow> status r = ''warning'' \<and> score r = 10)
     \<and> (length (get_title sd []) > 60 \<longrightarrow> status r = ''warning'' \<and> score r = 15)
     \<and> (30 \<le> length (get_title sd []) \<and> length (get_title sd []) \<le> 60
          \<longrightarrow> status r = ''success'' \<and> score r = 20)"
  by (simp add: analyze_seo_quality_def Let_def)

lemma description_category:
  "\<exists>r. map_of (analyze_seo_quality sd) ''description'' = Some r
     \<and> (get_meta_description sd [] = [] \<longrightarrow> status r = ''error'' \<and> score r = 0)
     \<and> (get_meta_description sd [] \<noteq> [] \<and> length (get_meta_description sd []) < 120
          \<longrightarrow> status r = ''warning'' \<and> score r = 10)
     \<and> (length (get_meta_description sd []) > 160 \<longrightarrow> status r = ''warning'' \<and> score r = 15)
     \<and> (120 \<le> length (get_meta_description sd []) \<and> length (get_meta_description sd []) \<le> 160
          \<longrightarrow> status r = ''success'' \<and> score r = 20)"
  by (simp add: analyze_seo_quality_def Let_def)

lemma title_score:
  "\<exists>r. map_of (analyze_seo_quality sd) ''title'' = Some r \<and> 0 \<le> score r \<and> score r \<le> 20"
  by (simp add: analyze_seo_quality_def Let_def)

lemma description_score:
  "\<exists>r. map_of (analyze_seo_quality sd) ''description'' = Some r
     \<and> 0 \<le> score r \<and> score r \<le> 20"
  by (simp add: analyze_seo_quality_def Let_def)

lemma og_tags_score:
  "\<exists>r. map_of (analyze_seo_quality sd) ''og_tags'' = Some r \<and> 0 \<le> score r \<and> score r \<le> 20"
  by (simp add: analyze_seo_quality_def Let_def)

lemma twitter_tags_score:
  "\<exists>r. map_of (analyze_seo_quality sd) ''twitter_tags'' = Some r
     \<and> 0 \<le> score r \<and> score r \<le> 20"
  by (simp add: analyze_seo_quality_def Let_def)

lemma h1_structure_score:
  "\<exists>r. map_of (analyze_seo_quality sd) ''h1_structure'' = Some r
     \<and> 0 \<le> score r \<and> score r \<le> 20"
  by (simp add: analyze_seo_quality_def Let_def)

text \<open>
  Claim C1. For every document the title category is decided by strict comparisons, in the
  order of the rule table: an empty title gives \<open>error\<close> with score 0; a non-empty title
  shorter than 30 gives \<open>warning\<close> with score 10; a title longer than 60 gives \<open>warning\<close>
  with score 15; every length from 30 to 60 inclusive gives \<open>success\<close> with score 20. The
  description category does the same with the thresholds 120 and 160.
\<close>

theorem title_description_thresholds:
  "\<exists>rt rd.
     map_of (analyze_seo_quality (Seo_dict doc)) ''title'' = Some rt
     \<and> map_of (analyze_seo_quality (Seo_dict doc)) ''description'' = Some rd
     \<and> (title doc = [] \<longrightarrow> status rt = ''error'' \<and> score rt = 0)
     \<and> (title doc \<noteq> [] \<and> length (title doc) < 30
          \<longrightarrow> status rt = ''warning'' \<and> score rt = 10)
     \<and> (length (title doc) > 60 \<longrightarrow> status rt = ''warning'' \<and> score rt = 15)
     \<and> (30 \<le> length (title doc) \<and> length (title doc) \<le> 60
          \<longrightarrow> status rt = ''success'' \<and> score rt = 20)
     \<and> (meta_description doc = [] \<longrightarrow> status rd = ''error'' \<and> score rd = 0)
     \<and> (meta_description doc \<noteq> [] \<and> length (meta_description doc) < 120
          \<longrightarrow> status rd = ''warning'' \<and> score rd = 10)
     \<and> (length (meta_description doc) > 160 \<longrightarrow> status rd = ''warning'' \<and> score rd = 15)
     \<and> (120 \<le> length (meta_description doc) \<and> length (meta_description doc) \<le> 160
          \<longrightarrow> status rd = ''success'' \<and> score rd = 20)"
proof -
  obtain rt where rt: "map_of (analyze_seo_quality (Seo_dict doc)) ''title'' = Some rt"
    and "title doc = [] \<longrightarrow> status rt = ''error'' \<and> score rt = 0"
    and "title doc \<noteq> [] \<and> length (title doc) < 30
          \<longrightarrow> status rt = ''warning'' \<and> score rt = 10"
    and "length (title doc) > 60 \<longrightarrow> status rt = ''warning'' \<and> score rt = 15"
    and "30 \<le> length (title doc) \<and> length (title doc) \<le> 60
          \<longrightarrow> status rt = ''success'' \<and> score rt = 20"
    using title_category [of "Seo_dict doc"] by auto
  moreover
  obtain rd where rd: "map_of (analyze_seo_quality (Seo_dict doc)) ''description'' = Some rd"
    and "meta_description doc = [] \<longrightarrow> status rd = ''error'' \<and> score rd = 0"
    and "meta_description doc \<noteq> [] \<and> length (meta_description doc) < 120
          \<longrightarrow> status rd = ''warning'' \<and> score rd = 10"
    and "length (meta_description doc) > 160 \<longrightarrow> status rd = ''warning'' \<and> score rd = 15"
    and "120 \<le> length (meta_description doc) \<and> length (meta_description doc) \<le> 160
          \<longrightarrow> status rd = ''success'' \<and> score rd = 20"
    using description_category [of "Seo_dict doc"] by auto
  ultimately show ?thesis by blast
qed

theorem title_description_thresholds_witness:
  "(\<exists>rt rd.
      map_of (analyze_seo_quality (Seo_dict (example_doc [] []))) ''title'' = Some rt
      \<and> map_of (analyze_seo_quality (Seo_dict (example_doc [] []))) ''description'' = Some rd
      \<and> status rt = ''error'' \<and> score rt = 0 \<and> status rd = ''error'' \<and> score rd = 0)
   \<and> (\<exists>rt rd.
      map_of (analyze_seo_quality (Seo_dict (example_doc (replicate 29 CHR ''a'')
        (replicate 119 CHR ''a'')))) ''title'' = Some rt
      \<and> map_of (analyze_seo_quality (Seo_dict (example_doc (replicate 29 CHR ''a'')
        (replicate 119 CHR ''a'')))) ''description'' = Some rd
      \<and> status rt = ''warning'' \<and> score rt = 10 \<and> status rd = ''warning'' \<and> score rd = 10)
   \<and> (\<exists>rt rd.
      map_of (analyze_seo_quality (Seo_dict (example_doc (replicate 61 CHR ''a'')
        (replicate 161 CHR ''a'')))) ''title'' = Some rt
      \<and> map_of (analyze_seo_quality (Seo_dict (example_doc (replicate 61 CHR ''a'')
        (replicate 161 CHR ''a'')))) ''description'' = Some rd
      \<and> status rt = ''warning'' \<and> score rt = 15 \<and> status rd = ''warning'' \<and> score rd = 15)
   \<and> (\<exists>rt rd.
      map_of (analyze_seo_quality (Seo_dict (example_doc (replicate 30 CHR ''a'')
        (replicate 120 CHR ''a'')))) ''title'' = Some rt
      \<and> map_of (analyze_seo_quality (Seo_dict (example_doc (replicate 30 CHR ''a'')
        (replicate 120 CHR ''a'')))) ''description'' = Some rd
      \<and> status rt = ''success'' \<and> score rt = 20 \<and> status rd = ''success'' \<and> score rd = 20)
   \<and> (\<exists>rt rd.
      map_of (analyze_seo_quality (Seo_dict (example_doc (replicate 60 CHR ''a'')
        (replicate 160 CHR ''a'')))) ''title'' = Some rt
      \<and> map_of (analyze_seo_quality (Seo_dict (example_doc (replicate 60 CHR ''a'')
        (replicate 160 CHR ''a'')))) ''description'' = Some rd
      \<and> status rt = ''success'' \<and> score rt = 20 \<and> status rd = ''success'' \<and> score rd = 20)"
proof -
  have t: "title (example_doc t d) = t" and d: "meta_description (example_doc t d) = d"
    for t d by (simp_all add: example_doc_def)
  show ?thesis
    using title_description_thresholds [of "example_doc [] []"]
      title_description_thresholds
        [of "example_doc (replicate 29 CHR ''a'') (replicate 119 CHR ''a'')"]
      title_description_thresholds
        [of "example_doc (replicate 61 CHR ''a'') (replicate 161 CHR ''a'')"]
      title_description_thresholds
        [of "example_doc (replicate 30 CHR ''a'') (replicate 120 CHR ''a'')"]
      title_description_thresholds
        [of "example_doc (replicate 60 CHR ''a'') (replicate 160 CHR ''a'')"]
    by (simp add: t d)
qed

text \<open>
  Claim C2. For every document the analysis has exactly the five categories \<open>title\<close>,
  \<open>description\<close>, \<open>og_tags\<close>, \<open>twitter_tags\<close> and \<open>h1_structure\<close>; the total score is the
  sum of their five scores, and it lies between 0 and 100.
\<close>

theorem total_score_sum_and_range:
  "\<exists>t d og tw h.
     analyze_seo_quality (Seo_dict doc) =
       [(''title'', t), (''description'', d), (''og_tags'', og), (''twitter_tags'', tw),
        (''h1_structure'', h)]
     \<and> calculate_seo_score (analyze_seo_quality (Seo_dict doc)) =
         score t + score d + score og + score tw + score h
     \<and> 0 \<le> calculate_seo_score (analyze_seo_quality (Seo_dict doc))
     \<and> calculate_seo_score (analyze_seo_quality (Seo_dict doc)) \<le> 100"
proof -
  obtain t d og tw h where a:
    "analyze_seo_quality (Seo_dict doc) =
       [(''title'', t), (''description'', d), (''og_tags'', og), (''twitter_tags'', tw),
        (''h1_structure'', h)]"
    using analysis_shape by blast
  have s: "calculate_seo_score (analyze_seo_quality (Seo_dict doc)) =
         score t + score d + score og + score tw + score h"
    by (simp add: a calculate_seo_score_def)
  have "0 \<le> score t \<and> score t \<le> 20"
    using title_score [of "Seo_dict doc"] by (simp add: a)
  moreover have "0 \<le> score d \<and> score d \<le> 20"
    using description_score [of "Seo_dict doc"] by (simp add: a)
  moreover have "0 \<le> score og \<and> score og \<le> 20"
    using og_tags_score [of "Seo_dict doc"] by (simp add: a)
  moreover have "0 \<le> score tw \<and> score tw \<le> 20"
    using twitter_tags_score [of "Seo_dict doc"] by (simp add: a)
  moreover have "0 \<le> score h \<and> score h \<le> 20"
    using h1_structure_score [of "Seo_dict doc"] by (simp add: a)
  ultimately have "0 \<le> score t + score d + score og + score tw + score h
    \<and> score t + score d + score og + score tw + score h \<le> 100"
    by linarith
  with a s show ?thesis by simp
qed

subsection \<open>Preview resolver\<close>





subsection \<open>Tag extractor\<close>

lemma extract_meta_fixed:
  "url (extract_meta m d) = url d" "title (extract_meta m d) = title d"
  "h1_tags (extract_meta m d) = h1_tags d" "canonical (extract_meta m d) = canonical d"
  by (simp_all add: extract_meta_def Let_def)

lemma fold_extract_meta_fixed:
  "url (fold extract_meta ms d) = url d \<and> title (fold extract_meta ms d) = title d
   \<and> h1_tags (fold extract_meta ms d) = h1_tags d
   \<and> canonical (fold extract_meta ms d) = canonical d"
  by (induction ms arbitrary: d) (simp_all add: extract_meta_fixed)

lemma fold_extract_meta_description:
  "\<forall>m\<in>set ms. meta_name m \<noteq> ''description'' \<Longrightarrow>
   meta_description (fold extract_meta ms d) = meta_description d"
  by (induction ms arbitrary: d) (simp_all add: extract_meta_def Let_def)

lemma fold_extract_meta_keywords:
  "\<forall>m\<in>set ms. meta_name m \<noteq> ''keywords'' \<Longrightarrow>
   meta_keywords (fold extract_meta ms d) = meta_keywords d"
  by (induction ms arbitrary: d) (simp_all add: extract_meta_def Let_def)

lemma fold_extract_meta_og_none:
  "\<forall>m\<in>set ms. \<not> startswith ''og:'' (meta_property m) \<Longrightarrow>
   og_tags (fold extract_meta ms d) = og_tags d"
  by (induction ms arbitrary: d) (simp_all add: extract_meta_def Let_def)

lemma fold_extract_meta_twitter_none:
  "\<forall>m\<in>set ms. \<not> startswith ''twitter:'' (meta_name m) \<Longrightarrow>
   twitter_tags (fold extract_meta ms d) = twitter_tags d"
  by (induction ms arbitrary: d) (simp_all add: extract_meta_def Let_def)

lemma fold_extract_meta_og_other:
  "\<forall>m\<in>set ms. meta_name m \<noteq> ''description'' \<and> meta_name m \<noteq> ''keywords''
      \<and> startswith ''og:'' (meta_property m) \<longrightarrow> meta_property m \<noteq> k \<Longrightarrow>
   map_of (og_tags (fold extract_meta ms d)) k = map_of (og_tags d) k"
  by (induction ms arbitrary: d) (auto simp add: extract_meta_def Let_def update_conv')

lemma fold_extract_meta_twitter_other:
  "\<forall>m\<in>set ms. meta_name m \<noteq> ''description'' \<and> meta_name m \<noteq> ''keywords''
      \<and> \<not> startswith ''og:'' (meta_property m) \<and> startswith ''twitter:'' (meta_name m)
      \<longrightarrow> meta_name m \<noteq> k \<Longrightarrow>
   map_of (twitter_tags (fold extract_meta ms d)) k = map_of (twitter_tags d) k"
  by (induction ms arbitrary: d) (auto simp add: extract_meta_def Let_def update_conv')

lemma og_last_wins:
  assumes "meta_name m \<noteq> ''description''" "meta_name m \<noteq> ''keywords''"
    "startswith ''og:'' (meta_property m)"
    and later: "\<forall>m'\<in>set ms2. meta_name m' \<noteq> ''description'' \<and> meta_name m' \<noteq> ''keywords''
      \<and> startswith ''og:'' (meta_property m') \<longrightarrow> meta_property m' \<noteq> meta_property m"
  shows "map_of (og_tags (fold extract_meta (ms1 @ m # ms2) d)) (meta_property m)
         = Some (meta_content m)"
proof -
  have "map_of (og_tags (fold extract_meta (ms1 @ m # ms2) d)) (meta_property m)
        = map_of (og_tags (extract_meta m (fold extract_meta ms1 d))) (meta_property m)"
    using fold_extract_meta_og_other [OF later] by simp
  also have "\<dots> = Some (meta_content m)"
    using assms(1-3) by (simp add: extract_meta_def Let_def update_conv')
  finally show ?thesis .
qed

lemma twitter_last_wins:
  assumes "meta_name m \<noteq> ''description''" "meta_name m \<noteq> ''keywords''"
    "\<not> startswith ''og:'' (meta_property m)" "startswith ''twitter:'' (meta_name m)"
    and later: "\<forall>m'\<in>set ms2. meta_name m' \<noteq> ''description'' \<and> meta_name m' \<noteq> ''keywords''
      \<and> \<not> startswith ''og:'' (meta_property m') \<and> startswith ''twitter:'' (meta_name m')
      \<longrightarrow> meta_name m' \<noteq> meta_name m"
  shows "map_of (twitter_tags (fold extract_meta (ms1 @ m # ms2) d)) (meta_name m)
         = Some (meta_content m)"
proof -
  have "map_of (twitter_tags (fold extract_meta (ms1 @ m # ms2) d)) (meta_name m)
        = map_of (twitter_tags (extract_meta m (fold extract_meta ms1 d))) (meta_name m)"
    using fold_extract_meta_twitter_other [OF later] by simp
  also have "\<dots> = Some (meta_content m)"
    using assms(1-4) by (simp add: extract_meta_def Let_def update_conv')
  finally show ?thesis .
qed

lemma description_last_wins:
  assumes "meta_name m = ''description''"
    and later: "\<forall>m'\<in>set ms2. meta_name m' \<noteq> ''description''"
  shows "meta_description (fold extract_meta (ms1 @ m # ms2) d) = meta_content m"
  using assms(1) fold_extract_meta_description [OF later]
  by (simp add: extract_meta_def Let_def)

lemma keywords_last_wins:
  assumes "meta_name m \<noteq> ''description''" "meta_name m = ''keywords''"
    and later: "\<forall>m'\<in>set ms2. meta_name m' \<noteq> ''keywords''"
  shows "meta_keywords (fold extract_meta (ms1 @ m # ms2) d) = meta_content m"
  using assms(1,2) fold_extract_meta_keywords [OF later]
  by (simp add: extract_meta_def Let_def)

lemma extract_seo_tags_meta_loop:
  assumes "self_soup st = Some sp"
  shows "\<exists>d d0. extract_seo_tags st = (Seo_dict d, st\<lparr>self_seo_data := Seo_dict d\<rparr>)
     \<and> og_tags d0 = [] \<and> twitter_tags d0 = []
     \<and> meta_description d = meta_description (fold extract_meta (find_all ''meta'' sp) d0)
     \<and> meta_keywords d = meta_keywords (fold extract_meta (find_all ''meta'' sp) d0)
     \<and> og_tags d = og_tags (fold extract_meta (find_all ''meta'' sp) d0)
     \<and> twitter_tags d = twitter_tags (fold extract_meta (find_all ''meta'' sp) d0)"
proof -
  define d0 where "d0 =
    (case find_first ''title'' sp of
       None \<Rightarrow> \<lparr>url = self_url st, title = '''', meta_description = '''',
                 meta_keywords = '''', og_tags = [], twitter_tags = [], h1_tags = [],
                 canonical = ''''\<rparr>
     | Some title_tag \<Rightarrow>
         \<lparr>url = self_url st, title = strip (text_content title_tag), meta_description = '''',
          meta_keywords = '''', og_tags = [], twitter_tags = [], h1_tags = [],
          canonical = ''''\<rparr>)"
  have e: "og_tags d0 = []" "twitter_tags d0 = []"
    by (simp_all add: d0_def split: option.split)
  define d where "d =
    (case find_link_rel ''canonical'' sp of
       None \<Rightarrow> (fold extract_meta (find_all ''meta'' sp) d0)
                 \<lparr>h1_tags := map (\<lambda>h1. strip (text_content h1)) (find_all ''h1'' sp)\<rparr>
     | Some c \<Rightarrow> (fold extract_meta (find_all ''meta'' sp) d0)
                 \<lparr>h1_tags := map (\<lambda>h1. strip (text_content h1)) (find_all ''h1'' sp),
                  canonical := attr_get c ''href'' ''''\<rparr>)"
  have "extract_seo_tags st = (Seo_dict d, st\<lparr>self_seo_data := Seo_dict d\<rparr>)"
    using assms
    by (simp add: extract_seo_tags_def Let_def d_def d0_def split: option.split)
  moreover have "meta_description d = meta_description (fold extract_meta (find_all ''meta'' sp) d0)"
    "meta_keywords d = meta_keywords (fold extract_meta (find_all ''meta'' sp) d0)"
    "og_tags d = og_tags (fold extract_meta (find_all ''meta'' sp) d0)"
    "twitter_tags d = twitter_tags (fold extract_meta (find_all ''meta'' sp) d0)"
    by (simp_all add: d_def split: option.split)
  ultimately show ?thesis using e by blast
qed

text \<open>
  Claim C5. The extractor goes through the \<open>meta\<close> elements of the parsed document in
  document order and classifies each by the first condition that holds, in the order:
  lower-cased name equal to \<open>description\<close> (sets the meta description), name equal to
  \<open>keywords\<close> (sets the meta keywords), lower-cased property starting with \<open>og:\<close> (inserts
  into the Open Graph tags), name starting with \<open>twitter:\<close> (inserts into the Twitter
  tags). Exactly one of these updates happens for an element, or none when no condition
  holds. In the extracted document, the meta description, the meta keywords and the value
  of each Open Graph or Twitter key are the content of the last \<open>meta\<close> element of the
  document that was classified under it, and a key under which no element was classified
  is absent.
\<close>

theorem meta_classification_last_wins:
  "self_soup st = Some sp \<Longrightarrow>
   \<exists>d. extract_seo_tags st = (Seo_dict d, st\<lparr>self_seo_data := Seo_dict d\<rparr>)
     \<and> (find_all ''meta'' sp = ms1 @ m # ms2
          \<and> meta_name m = ''description''
          \<and> (\<forall>m'\<in>set ms2. meta_name m' \<noteq> ''description'')
        \<longrightarrow> meta_description d = meta_content m)
     \<and> (find_all ''meta'' sp = ms1 @ m # ms2
          \<and> meta_name m \<noteq> ''description'' \<and> meta_name m = ''keywords''
          \<and> (\<forall>m'\<in>set ms2. meta_name m' \<noteq> ''keywords'')
        \<longrightarrow> meta_keywords d = meta_content m)
     \<and> (find_all ''meta'' sp = ms1 @ m # ms2
          \<and> meta_name m \<noteq> ''description'' \<and> meta_name m \<noteq> ''keywords''
          \<and> startswith ''og:'' (meta_property m)
          \<and> (\<forall>m'\<in>set ms2. meta_name m' \<noteq> ''description'' \<and> meta_name m' \<noteq> ''keywords''
                \<and> startswith ''og:'' (meta_property m')
                \<longrightarrow> meta_property m' \<noteq> meta_property m)
        \<longrightarrow> map_of (og_tags d) (meta_property m) = Some (meta_content m))
     \<and> (find_all ''meta'' sp = ms1 @ m # ms2
          \<and> meta_name m \<noteq> ''description'' \<and> meta_name m \<noteq> ''keywords''
          \<and> \<not> startswith ''og:'' (meta_property m) \<and> startswith ''twitter:'' (meta_name m)
          \<and> (\<forall>m'\<in>set ms2. meta_name m' \<noteq> ''description'' \<and> meta_name m' \<noteq> ''keywords''
                \<and> \<not> startswith ''og:'' (meta_property m')
                \<and> startswith ''twitter:'' (meta_name m')
                \<longrightarrow> meta_name m' \<noteq> meta_name m)
        \<longrightarrow> map_of (twitter_tags d) (meta_name m) = Some (meta_content m))
     \<and> ((\<forall>m'\<in>set (find_all ''meta'' sp).
            meta_name m' \<noteq> ''description'' \<and> meta_name m' \<noteq> ''keywords''
            \<and> startswith ''og:'' (meta_property m') \<longrightarrow> meta_property m' \<noteq> k)
        \<longrightarrow> map_of (og_tags d) k = None)
     \<and> ((\<forall>m'\<in>set (find_all ''meta'' sp).
            meta_name m' \<noteq> ''description'' \<and> meta_name m' \<noteq> ''keywords''
            \<and> \<not> startswith ''og:'' (meta_property m')
            \<and> startswith ''twitter:'' (meta_name m') \<longrightarrow> meta_name m' \<noteq> k)
        \<longrightarrow> map_of (twitter_tags d) k = None)
     \<and> (meta_name m = ''description''
        \<longrightarrow> extract_meta m seo = seo\<lparr>meta_description := meta_content m\<rparr>)
     \<and> (meta_name m \<noteq> ''description'' \<and> meta_name m = ''keywords''
        \<longrightarrow> extract_meta m seo = seo\<lparr>meta_keywords := meta_content m\<rparr>)
     \<and> (meta_name m \<noteq> ''description'' \<and> meta_name m \<noteq> ''keywords''
          \<and> startswith ''og:'' (meta_property m)
        \<longrightarrow> extract_meta m seo =
              seo\<lparr>og_tags := AList.update (meta_property m) (meta_content m) (og_tags seo)\<rparr>)
     \<and> (meta_name m \<noteq> ''description'' \<and> meta_name m \<noteq> ''keywords''
          \<and> \<not> startswith ''og:'' (meta_property m) \<and> startswith ''twitter:'' (meta_name m)
        \<longrightarrow> extract_meta m seo =
              seo\<lparr>twitter_tags :=
                    AList.update (meta_name m) (meta_content m) (twitter_tags seo)\<rparr>)
     \<and> (meta_name m \<noteq> ''description'' \<and> meta_name m \<noteq> ''keywords''
          \<and> \<not> startswith ''og:'' (meta_property m) \<and> \<not> startswith ''twitter:'' (meta_name m)
        \<longrightarrow> extract_meta m seo = seo)"
proof -
  assume soup: "self_soup st = Some sp"
  let ?ms = "find_all ''meta'' sp"
  obtain d d0 where ex: "extract_seo_tags st = (Seo_dict d, st\<lparr>self_seo_data := Seo_dict d\<rparr>)"
    and e: "og_tags d0 = []" "twitter_tags d0 = []"
    and f: "meta_description d = meta_description (fold extract_meta ?ms d0)"
      "meta_keywords d = meta_keywords (fold extract_meta ?ms d0)"
      "og_tags d = og_tags (fold extract_meta ?ms d0)"
      "twitter_tags d = twitter_tags (fold extract_meta ?ms d0)"
    using extract_seo_tags_meta_loop [OF soup] by blast
  have a: "?ms = ms1 @ m # ms2
          \<and> meta_name m = ''description''
          \<and> (\<forall>m'\<in>set ms2. meta_name m' \<noteq> ''description'')
        \<longrightarrow> meta_description d = meta_content m"
    using description_last_wins [of m ms2 ms1 d0] by (simp add: f)
  have b: "?ms = ms1 @ m # ms2
          \<and> meta_name m \<noteq> ''description'' \<and> meta_name m = ''keywords''
          \<and> (\<forall>m'\<in>set ms2. meta_name m' \<noteq> ''keywords'')
        \<longrightarrow> meta_keywords d = meta_content m"
    using keywords_last_wins [of m ms2 ms1 d0] by (simp add: f)
  have c: "?ms = ms1 @ m # ms2
          \<and> meta_name m \<noteq> ''description'' \<and> meta_name m \<noteq> ''keywords''
          \<and> startswith ''og:'' (meta_property m)
          \<and> (\<forall>m'\<in>set ms2. meta_name m' \<noteq> ''description'' \<and> meta_name m' \<noteq> ''keywords''
                \<and> startswith ''og:'' (meta_property m')
                \<longrightarrow> meta_property m' \<noteq> meta_property m)
        \<longrightarrow> map_of (og_tags d) (meta_property m) = Some (meta_content m)"
    using og_last_wins [of m ms2 ms1 d0] by (simp add: f)
  have t: "?ms = ms1 @ m # ms2
          \<and> meta_name m \<noteq> ''description'' \<and> meta_name m \<noteq> ''keywords''
          \<and> \<not> startswith ''og:'' (meta_property m) \<and> startswith ''twitter:'' (meta_name m)
          \<and> (\<forall>m'\<in>set ms2. meta_name m' \<noteq> ''description'' \<and> meta_name m' \<noteq> ''keywords''
                \<and> \<not> startswith ''og:'' (meta_property m')
                \<and> startswith ''twitter:'' (meta_name m')
                \<longrightarrow> meta_name m' \<noteq> meta_name m)
        \<longrightarrow> map_of (twitter_tags d) (meta_name m) = Some (meta_content m)"
    using twitter_last_wins [of m ms2 ms1 d0] by (simp add: f)
  have n1: "(\<forall>m'\<in>set ?ms.
            meta_name m' \<noteq> ''description'' \<and> meta_name m' \<noteq> ''keywords''
            \<and> startswith ''og:'' (meta_property m') \<longrightarrow> meta_property m' \<noteq> k)
        \<longrightarrow> map_of (og_tags d) k = None"
    using fold_extract_meta_og_other [of ?ms k d0] by (simp add: f e)
  have n2: "(\<forall>m'\<in>set ?ms.
            meta_name m' \<noteq> ''description'' \<and> meta_name m' \<noteq> ''keywords''
            \<and> \<not> startswith ''og:'' (meta_property m')
            \<and> startswith ''twitter:'' (meta_name m') \<longrightarrow> meta_name m' \<noteq> k)
        \<longrightarrow> map_of (twitter_tags d) k = None"
    using fold_extract_meta_twitter_other [of ?ms k d0] by (simp add: f e)
  have s1: "meta_name m = ''description''
        \<longrightarrow> extract_meta m seo = seo\<lparr>meta_description := meta_content m\<rparr>"
    by (simp add: extract_meta_def Let_def)
  have s2: "meta_name m \<noteq> ''description'' \<and> meta_name m = ''keywords''
        \<longrightarrow> extract_meta m seo = seo\<lparr>meta_keywords := meta_content m\<rparr>"
    by (simp add: extract_meta_def Let_def)
  have s3: "meta_name m \<noteq> ''description'' \<and> meta_name m \<noteq> ''keywords''
          \<and> startswith ''og:'' (meta_property m)
        \<longrightarrow> extract_meta m seo =
              seo\<lparr>og_tags := AList.update (meta_property m) (meta_content m) (og_tags seo)\<rparr>"
    by (simp add: extract_meta_def Let_def)
  have s4: "meta_name m \<noteq> ''description'' \<and> meta_name m \<noteq> ''keywords''
          \<and> \<not> startswith ''og:'' (meta_property m) \<and> startswith ''twitter:'' (meta_name m)
        \<longrightarrow> extract_meta m seo =
              seo\<lparr>twitter_tags :=
                    AList.update (meta_name m) (meta_content m) (twitter_tags seo)\<rparr>"
    by (simp add: extract_meta_def Let_def)
  have s5: "meta_name m \<noteq> ''description'' \<and> meta_name m \<noteq> ''keywords''
          \<and> \<not> startswith ''og:'' (meta_property m) \<and> \<not> startswith ''twitter:'' (meta_name m)
        \<longrightarrow> extract_meta m seo = seo"
    by (simp add: extract_meta_def Let_def)
  show ?thesis
    by (rule exI [of _ d]) (intro conjI ex a b c t n1 n2 s1 s2 s3 s4 s5)
qed

theorem meta_classification_last_wins_witness:
  "self_soup meta_page_analyzer = Some meta_page
   \<and> (\<exists>d. extract_seo_tags meta_page_analyzer
            = (Seo_dict d, meta_page_analyzer\<lparr>self_seo_data := Seo_dict d\<rparr>)
        \<and> meta_description d = ''D2''
        \<and> meta_keywords d = ''K2''
        \<and> map_of (og_tags d) ''og:title'' = Some ''second''
        \<and> map_of (twitter_tags d) ''twitter:card'' = Some ''b''
        \<and> map_of (og_tags d) ''og:image'' = None
        \<and> map_of (twitter_tags d) ''twitter:title'' = None)
   \<and> extract_meta (meta_tag [(''name'', ''description''), (''content'', ''D2'')])
        (example_doc [] [])
      = (example_doc [] [])\<lparr>meta_description := ''D2''\<rparr>
   \<and> extract_meta (meta_tag [(''name'', ''Keywords''), (''content'', ''K2'')])
        (example_doc [] [])
      = (example_doc [] [])\<lparr>meta_keywords := ''K2''\<rparr>
   \<and> extract_meta (meta_tag [(''property'', ''OG:Title''), (''content'', ''second'')])
        (example_doc [] [])
      = (example_doc [] [])\<lparr>og_tags := AList.update ''og:title'' ''second'' []\<rparr>
   \<and> extract_meta
        (meta_tag [(''name'', ''Twitter:Card''), (''property'', ''article:tag''),
                   (''content'', ''b'')])
        (example_doc [] [])
      = (example_doc [] [])\<lparr>twitter_tags := AList.update ''twitter:card'' ''b'' []\<rparr>
   \<and> extract_meta (meta_tag [(''name'', ''viewport''), (''content'', ''v'')])
        (example_doc [] [])
      = example_doc [] []"
proof -
  let ?st = meta_page_analyzer
  let ?seo = "example_doc [] []"
  let ?og1 = "meta_tag [(''property'', ''og:title''), (''content'', ''first'')]"
  let ?de1 = "meta_tag [(''name'', ''Description''), (''property'', ''og:image''),
                        (''content'', ''D1'')]"
  let ?tw1 = "meta_tag [(''name'', ''twitter:card''), (''content'', ''a'')]"
  let ?kw1 = "meta_tag [(''name'', ''keywords''), (''content'', ''K1'')]"
  let ?og2 = "meta_tag [(''property'', ''OG:Title''), (''content'', ''second'')]"
  let ?de2 = "meta_tag [(''name'', ''description''), (''content'', ''D2'')]"
  let ?tw2 = "meta_tag [(''name'', ''Twitter:Card''), (''property'', ''article:tag''),
                        (''content'', ''b'')]"
  let ?kw2 = "meta_tag [(''name'', ''Keywords''), (''content'', ''K2'')]"
  let ?vp = "meta_tag [(''name'', ''viewport''), (''content'', ''v'')]"
  let ?ex = "\<lambda>d. extract_seo_tags ?st = (Seo_dict d, ?st\<lparr>self_seo_data := Seo_dict d\<rparr>)"
  have soup: "self_soup ?st = Some meta_page"
    by (simp add: meta_page_analyzer_def)
  have e: "og_tags ?seo = []" "twitter_tags ?seo = []"
    by (simp_all add: example_doc_def)

  have h1: "find_all ''meta'' meta_page = [?og1, ?de1, ?tw1, ?kw1, ?og2] @ ?de2 # [?tw2, ?kw2, ?vp]"
    "meta_name ?de2 = ''description''" "meta_content ?de2 = ''D2''"
    and b1: "\<forall>m'\<in>set [?tw2, ?kw2, ?vp]. meta_name m' \<noteq> ''description''"
    by code_simp+
  have w1: "\<exists>d. ?ex d \<and> meta_description d = ''D2''
          \<and> extract_meta ?de2 ?seo = ?seo\<lparr>meta_description := ''D2''\<rparr>"
    using meta_classification_last_wins
      [OF soup, of "[?og1, ?de1, ?tw1, ?kw1, ?og2]" ?de2 "[?tw2, ?kw2, ?vp]" "''og:image''" ?seo]
    apply -
    apply (erule exE)
    apply (elim conjE)
    apply (rule exI)
    apply (intro conjI)
    apply assumption
    apply (simp only: h1 b1 [THEN eqTrueI] simp_thms)+
    done

  have h2: "find_all ''meta'' meta_page
          = [?og1, ?de1, ?tw1, ?kw1, ?og2, ?de2, ?tw2] @ ?kw2 # [?vp]"
    "''keywords'' \<noteq> ''description''" "meta_name ?kw2 = ''keywords''"
    "meta_content ?kw2 = ''K2''"
    and b2: "\<forall>m'\<in>set [?vp]. meta_name m' \<noteq> ''keywords''"
    by code_simp+
  have w2: "\<exists>d. ?ex d \<and> meta_keywords d = ''K2''
          \<and> extract_meta ?kw2 ?seo = ?seo\<lparr>meta_keywords := ''K2''\<rparr>"
    using meta_classification_last_wins
      [OF soup, of "[?og1, ?de1, ?tw1, ?kw1, ?og2, ?de2, ?tw2]" ?kw2 "[?vp]" "''og:image''" ?seo]
    apply -
    apply (erule exE)
    apply (elim conjE)
    apply (rule exI)
    apply (intro conjI)
    apply assumption
    apply (simp only: h2 b2 [THEN eqTrueI] simp_thms)+
    done

  have h3: "find_all ''meta'' meta_page
          = [?og1, ?de1, ?tw1, ?kw1] @ ?og2 # [?de2, ?tw2, ?kw2, ?vp]"
    "meta_name ?og2 \<noteq> ''description''" "meta_name ?og2 \<noteq> ''keywords''"
    "startswith ''og:'' ''og:title''"
    "meta_content ?og2 = ''second''" "meta_property ?og2 = ''og:title''"
    and b3: "\<forall>m'\<in>set [?de2, ?tw2, ?kw2, ?vp].
        meta_name m' \<noteq> ''description'' \<and> meta_name m' \<noteq> ''keywords''
        \<and> startswith ''og:'' (meta_property m')
        \<longrightarrow> meta_property m' \<noteq> ''og:title''"
    by code_simp+
  have w3: "\<exists>d. ?ex d \<and> map_of (og_tags d) ''og:title'' = Some ''second''
          \<and> extract_meta ?og2 ?seo
              = ?seo\<lparr>og_tags := AList.update ''og:title'' ''second'' []\<rparr>"
    using meta_classification_last_wins
      [OF soup, of "[?og1, ?de1, ?tw1, ?kw1]" ?og2 "[?de2, ?tw2, ?kw2, ?vp]" "''og:image''" ?seo]
    apply -
    apply (erule exE)
    apply (elim conjE)
    apply (rule exI)
    apply (intro conjI)
    apply assumption
    apply (simp only: h3 b3 [THEN eqTrueI] e simp_thms)+
    done

  have h4: "find_all ''meta'' meta_page
          = [?og1, ?de1, ?tw1, ?kw1, ?og2, ?de2] @ ?tw2 # [?kw2, ?vp]"
    "meta_name ?tw2 = ''twitter:card''" "meta_property ?tw2 = ''article:tag''"
    "''twitter:card'' \<noteq> ''description''" "''twitter:card'' \<noteq> ''keywords''"
    "\<not> startswith ''og:'' ''article:tag''" "startswith ''twitter:'' ''twitter:card''"
    "meta_content ?tw2 = ''b''"
    and b4: "\<forall>m'\<in>set [?kw2, ?vp].
        meta_name m' \<noteq> ''description'' \<and> meta_name m' \<noteq> ''keywords''
        \<and> \<not> startswith ''og:'' (meta_property m') \<and> startswith ''twitter:'' (meta_name m')
        \<longrightarrow> meta_name m' \<noteq> ''twitter:card''"
    by code_simp+
  have w4: "\<exists>d. ?ex d \<and> map_of (twitter_tags d) ''twitter:card'' = Some ''b''
          \<and> extract_meta ?tw2 ?seo
              = ?seo\<lparr>twitter_tags := AList.update ''twitter:card'' ''b'' []\<rparr>"
    using meta_classification_last_wins
      [OF soup, of "[?og1, ?de1, ?tw1, ?kw1, ?og2, ?de2]" ?tw2 "[?kw2, ?vp]" "''og:image''" ?seo]
    apply -
    apply (erule exE)
    apply (elim conjE)
    apply (rule exI)
    apply (intro conjI)
    apply assumption
    apply (simp only: h4 b4 [THEN eqTrueI] e simp_thms)+
    done

  have h5: "meta_name ?vp \<noteq> ''description''" "meta_name ?vp \<noteq> ''keywords''"
    "\<not> startswith ''og:'' (meta_property ?vp)" "\<not> startswith ''twitter:'' (meta_name ?vp)"
    and b5: "\<forall>m'\<in>set (find_all ''meta'' meta_page).
          meta_name m' \<noteq> ''description'' \<and> meta_name m' \<noteq> ''keywords''
          \<and> startswith ''og:'' (meta_property m') \<longrightarrow> meta_property m' \<noteq> ''og:image''"
    by code_simp+
  have w5: "\<exists>d. ?ex d \<and> map_of (og_tags d) ''og:image'' = None
          \<and> extract_meta ?vp ?seo = ?seo"
    using meta_classification_last_wins [OF soup, of "[]" ?vp "[]" "''og:image''" ?seo]
    apply -
    apply (erule exE)
    apply (elim conjE)
    apply (rule exI)
    apply (intro conjI)
    apply assumption
    apply (simp only: h5 b5 [THEN eqTrueI] simp_thms)+
    done

  have b6: "\<forall>m'\<in>set (find_all ''meta'' meta_page).
          meta_name m' \<noteq> ''description'' \<and> meta_name m' \<noteq> ''keywords''
          \<and> \<not> startswith ''og:'' (meta_property m') \<and> startswith ''twitter:'' (meta_name m')
          \<longrightarrow> meta_name m' \<noteq> ''twitter:title''"
    by code_simp
  have w6: "\<exists>d. ?ex d \<and> map_of (twitter_tags d) ''twitter:title'' = None"
    using meta_classification_last_wins [OF soup, of "[]" ?vp "[]" "''twitter:title''" ?seo]
    apply -
    apply (erule exE)
    apply (elim conjE)
    apply (rule exI)
    apply (intro conjI)
    apply assumption
    apply (simp only: b6 [THEN eqTrueI] simp_thms)+
    done

  from w1 obtain d where d: "?ex d" and p1: "meta_description d = ''D2''"
    and q1: "extract_meta ?de2 ?seo = ?seo\<lparr>meta_description := ''D2''\<rparr>"
    by blast
  from w2 d have p2: "meta_keywords d = ''K2''"
    and q2: "extract_meta ?kw2 ?seo = ?seo\<lparr>meta_keywords := ''K2''\<rparr>"
    by auto
  from w3 d have p3: "map_of (og_tags d) ''og:title'' = Some ''second''"
    and q3: "extract_meta ?og2 ?seo = ?seo\<lparr>og_tags := AList.update ''og:title'' ''second'' []\<rparr>"
    by auto
  from w4 d have p4: "map_of (twitter_tags d) ''twitter:card'' = Some ''b''"
    and q4: "extract_meta ?tw2 ?seo
             = ?seo\<lparr>twitter_tags := AList.update ''twitter:card'' ''b'' []\<rparr>"
    by auto
  from w5 d have p5: "map_of (og_tags d) ''og:image'' = None"
    and q5: "extract_meta ?vp ?seo = ?seo"
    by auto
  from w6 d have p6: "map_of (twitter_tags d) ''twitter:title'' = None"
    by auto
  from d p1 p2 p3 p4 p5 p6
  have "\<exists>d. ?ex d \<and> meta_description d = ''D2'' \<and> meta_keywords d = ''K2''
        \<and> map_of (og_tags d) ''og:title'' = Some ''second''
        \<and> map_of (twitter_tags d) ''twitter:card'' = Some ''b''
        \<and> map_of (og_tags d) ''og:image'' = None
        \<and> map_of (twitter_tags d) ''twitter:title'' = None"
    by blast
  with soup q1 q2 q3 q4 q5 show ?thesis
    by (intro conjI)
qed

text \<open>
  Claim C8. When the analyzer holds a parsed document, extraction returns a document with
  all eight fields and stores it; no step of it can raise. The title, the meta description,
  the meta keywords and the canonical URL are the empty string when the document has no
  \<open>title\<close> element, no \<open>meta\<close> element named \<open>description\<close>, none named \<open>keywords\<close> and no
  canonical \<open>link\<close> element; the Open Graph and Twitter tags are the empty mapping when no
  \<open>meta\<close> element has an \<open>og:\<close> property or a \<open>twitter:\<close> name; the H1 list is empty when
  there is no \<open>h1\<close> element.
\<close>

theorem extract_seo_tags_defaults:
  "self_soup st = Some sp \<Longrightarrow>
   \<exists>d. extract_seo_tags st = (Seo_dict d, st\<lparr>self_seo_data := Seo_dict d\<rparr>)
     \<and> url d = self_url st
     \<and> (find_first ''title'' sp = None \<longrightarrow> title d = '''')
     \<and> ((\<forall>m\<in>set (find_all ''meta'' sp). meta_name m \<noteq> ''description'')
          \<longrightarrow> meta_description d = '''')
     \<and> ((\<forall>m\<in>set (find_all ''meta'' sp). meta_name m \<noteq> ''keywords'')
          \<longrightarrow> meta_keywords d = '''')
     \<and> ((\<forall>m\<in>set (find_all ''meta'' sp). \<not> startswith ''og:'' (meta_property m))
          \<longrightarrow> og_tags d = [])
     \<and> ((\<forall>m\<in>set (find_all ''meta'' sp). \<not> startswith ''twitter:'' (meta_name m))
          \<longrightarrow> twitter_tags d = [])
     \<and> (find_all ''h1'' sp = [] \<longrightarrow> h1_tags d = [])
     \<and> (find_link_rel ''canonical'' sp = None \<longrightarrow> canonical d = '''')"
  by (simp add: extract_seo_tags_def Let_def fold_extract_meta_fixed
      fold_extract_meta_description fold_extract_meta_keywords fold_extract_meta_og_none
      fold_extract_meta_twitter_none split: option.split)

theorem extract_seo_tags_defaults_witness:
  "self_soup (init_analyzer\<lparr>self_soup := Some example_soup,
                            self_url := Some ''https://example.com''\<rparr>) = Some example_soup
   \<and> (\<exists>d. extract_seo_tags (init_analyzer\<lparr>self_soup := Some example_soup,
                                             self_url := Some ''https://example.com''\<rparr>)
          = (Seo_dict d,
             init_analyzer\<lparr>self_soup := Some example_soup,
                            self_url := Some ''https://example.com'',
                            self_seo_data := Seo_dict d\<rparr>)
        \<and> url d = Some ''https://example.com'' \<and> title d = '''' \<and> meta_description d = ''''
        \<and> meta_keywords d = '''' \<and> og_tags d = [] \<and> twitter_tags d = [] \<and> h1_tags d = []
        \<and> canonical d = '''')"
  using extract_seo_tags_defaults
    [of "init_analyzer\<lparr>self_soup := Some example_soup,
                        self_url := Some ''https://example.com''\<rparr>" example_soup]
  by (simp add: init_analyzer_def example_soup_def meta_tag_def find_first_def find_all_def
      find_link_rel_def meta_name_def meta_property_def attr_get_def lower_def lower_char_def
      startswith_def)

text \<open>
  Claim C10. When no parsed document is held, as in a new analyzer and after a failed
  fetch, extraction returns the empty dict and leaves the analyzer unchanged; the empty
  dict is not a document, so none of the eight fields is present.
\<close>

theorem extract_seo_tags_without_soup:
  "extract_seo_tags init_analyzer = (Empty_dict, init_analyzer)
   \<and> (self_soup st = None \<longrightarrow> extract_seo_tags st = (Empty_dict, st))
   \<and> (\<forall>d. Empty_dict \<noteq> Seo_dict d)"
  by (simp add: extract_seo_tags_def init_analyzer_def)

theorem extract_seo_tags_without_soup_witness:
  "self_soup init_analyzer = None
   \<and> extract_seo_tags init_analyzer = (Empty_dict, init_analyzer)"
  using extract_seo_tags_without_soup [of init_analyzer]
  by (simp add: init_analyzer_def)

subsection \<open>URL variations\<close>

lemma keys_fromkeys3:
  "keys (fromkeys [a, b, c]) =
     a # (if b = a then [] else [b]) @ (if c = a \<or> c = b then [] else [c])"
  by (simp add: keys_def fromkeys_def)

lemma get_url_variations_first: "\<exists>rest. get_url_variations u = u # rest"
  by (simp add: get_url_variations_def Let_def keys_fromkeys3)

lemma get_url_variations_member: "u \<in> set (get_url_variations u)"
  using get_url_variations_first [of u] by auto

lemma get_url_variations_distinct: "distinct (get_url_variations u)"
  by (simp add: get_url_variations_def Let_def keys_fromkeys3)

lemma get_url_variations_length:
  "1 \<le> length (get_url_variations u) \<and> length (get_url_variations u) \<le> 3"
  by (simp add: get_url_variations_def Let_def keys_fromkeys3)

text \<open>
  Claim C6. The variations are the original input, its normalized form and the input
  without its scheme, without duplicates and in this order. The claim says that the third
  candidate loses only a leading \<open>http://\<close> or \<open>https://\<close>. The code removes every
  occurrence of \<open>https://\<close> and then every occurrence of \<open>http://\<close>: for a URL that carries
  another URL in its query string, the scheme of the inner URL is removed as well.
\<close>

theorem get_url_variations_inner_scheme:
  "get_url_variations ''https://a.com/?u=http://b.com''
     = [''https://a.com/?u=http://b.com'', ''a.com/?u=b.com'']
   \<and> strip_leading_scheme ''https://a.com/?u=http://b.com'' = ''a.com/?u=http://b.com''"
  by code_simp

subsection \<open>Persistence\<close>

lemma latest_of_new_row:
  assumes new: "row_url new = Some u" "row_analyzed_at new = now"
    and old: "\<forall>r\<in>set rows. row_url r \<in> Some ` set (get_url_variations u)
                \<longrightarrow> row_analyzed_at r < now"
  shows "filter (\<lambda>r. \<forall>r'\<in>set (filter (\<lambda>r. case row_url r of None \<Rightarrow> False
                                      | Some v \<Rightarrow> v \<in> set (get_url_variations u))
                                   (rows @ [new])).
                   row_analyzed_at r' \<le> row_analyzed_at r)
           (filter (\<lambda>r. case row_url r of None \<Rightarrow> False
                       | Some v \<Rightarrow> v \<in> set (get_url_variations u)) (rows @ [new]))
         = [new]"
proof -
  let ?match = "\<lambda>r. case row_url r of None \<Rightarrow> False
                    | Some v \<Rightarrow> v \<in> set (get_url_variations u)"
  have m: "?match new"
    using new get_url_variations_member [of u] by simp
  have older: "row_analyzed_at r < now" if "r \<in> set rows" "?match r" for r
  proof -
    from that(2) have "row_url r \<in> Some ` set (get_url_variations u)"
      by (cases "row_url r") auto
    with old that(1) show ?thesis by blast
  qed
  have split: "filter ?match (rows @ [new]) = filter ?match rows @ [new]"
    using m by simp
  have none: "filter (\<lambda>r. \<forall>r'\<in>set (filter ?match rows @ [new]).
                        row_analyzed_at r' \<le> row_analyzed_at r) (filter ?match rows) = []"
  proof -
    have "\<not> (\<forall>r'\<in>set (filter ?match rows @ [new]). row_analyzed_at r' \<le> row_analyzed_at r)"
      if "r \<in> set (filter ?match rows)" for r
    proof -
      from that have "row_analyzed_at r < now" using older by simp
      then have "\<not> row_analyzed_at new \<le> row_analyzed_at r" using new by simp
      then show ?thesis by auto
    qed
    then show ?thesis by (simp add: filter_empty_conv)
  qed
  have self: "\<forall>r'\<in>set (filter ?match rows @ [new]). row_analyzed_at r' \<le> row_analyzed_at new"
    using older new by (auto simp: less_imp_le)
  show ?thesis
    unfolding split using none self by simp
qed

text \<open>
  Claim C9, amended. When a document with URL \<open>u\<close>, an analysis and a score are saved, the
  save succeeds and the new row's timestamp is later than that of every stored row whose
  URL is a variation of \<open>u\<close>, reading back by \<open>u\<close> finds a record whose URL, title, meta
  description, Open Graph and Twitter mappings, H1 list, score and analysis are the saved
  ones. The record that is read back has no field for the meta keywords, the canonical URL
  or the domain: the query does not select these columns.
\<close>

theorem save_then_get_analysis_by_url:
  assumes "save_analysis netloc db (Seo_dict doc) an sc now = (True, db')"
    and "url doc = Some u"
    and "\<forall>r\<in>set (db_rows db). row_url r \<in> Some ` set (get_url_variations u)
           \<longrightarrow> row_analyzed_at r < now"
    and "\<forall>rs. rs \<noteq> [] \<longrightarrow> pick rs \<in> set rs"
  shows "\<exists>rec. get_analysis_by_url pick db' u = Some rec
     \<and> ar_url rec = Some u
     \<and> ar_title rec = title doc
     \<and> ar_meta_description rec = meta_description doc
     \<and> map_of (ar_og_tags rec) = map_of (og_tags doc)
     \<and> map_of (ar_twitter_tags rec) = map_of (twitter_tags doc)
     \<and> ar_h1_tags rec = h1_tags doc
     \<and> ar_seo_score rec = sc
     \<and> ar_analysis_results rec = an
     \<and> ar_analyzed_at rec = now"
proof -
  define new where "new =
    \<lparr>row_url = Some u, row_domain = netloc u, row_title = Some (title doc),
     row_meta_description = Some (meta_description doc),
     row_meta_keywords = meta_keywords doc, row_og_tags = Some (og_tags doc),
     row_twitter_tags = Some (twitter_tags doc), row_h1_tags = Some (h1_tags doc),
     row_canonical = canonical doc, row_seo_score = sc, row_analysis_results = Some an,
     row_analyzed_at = now\<rparr>"
  from assms(1,2) have av: "db_available db" and db': "db' = db\<lparr>db_rows := db_rows db @ [new]\<rparr>"
    by (auto simp add: save_analysis_def new_def Let_def split: if_splits)
  have latest: "filter (\<lambda>r. \<forall>r'\<in>set (filter (\<lambda>r. case row_url r of None \<Rightarrow> False
                                      | Some v \<Rightarrow> v \<in> set (get_url_variations u))
                                   (db_rows db @ [new])).
                   row_analyzed_at r' \<le> row_analyzed_at r)
           (filter (\<lambda>r. case row_url r of None \<Rightarrow> False
                       | Some v \<Rightarrow> v \<in> set (get_url_variations u)) (db_rows db @ [new]))
         = [new]"
    by (rule latest_of_new_row [OF _ _ assms(3)]) (simp_all add: new_def)
  have rows: "db_rows db' = db_rows db @ [new]" and av': "db_available db'"
    using db' av by simp_all
  have "pick [new] \<in> set [new]"
    using assms(4) by blast
  then have pick: "pick [new] = new" by simp
  have "get_analysis_by_url pick db' u =
        Some \<lparr>ar_url = Some u, ar_title = or_else (Some (title doc)) '''',
              ar_meta_description = or_else (Some (meta_description doc)) '''',
              ar_og_tags = og_tags doc, ar_twitter_tags = twitter_tags doc,
              ar_h1_tags = h1_tags doc, ar_seo_score = sc, ar_analysis_results = an,
              ar_analyzed_at = now\<rparr>"
    unfolding get_analysis_by_url_def Let_def rows latest
    by (simp add: av' pick) (simp add: new_def safe_json_loads_def)
  then show ?thesis
    by (simp add: or_else_def)
qed

theorem save_then_get_analysis_by_url_witness:
  "save_analysis simple_netloc example_db (Seo_dict (keywords_doc ''k1'' ''https://c1''))
       (analyze_seo_quality (Seo_dict (keywords_doc ''k1'' ''https://c1''))) 40 5
     = (True,
        snd (save_analysis simple_netloc example_db
               (Seo_dict (keywords_doc ''k1'' ''https://c1''))
               (analyze_seo_quality (Seo_dict (keywords_doc ''k1'' ''https://c1''))) 40 5))
   \<and> url (keywords_doc ''k1'' ''https://c1'') = Some ''https://example.com''
   \<and> list_all (\<lambda>r. row_analyzed_at r < 5) (db_rows example_db)
   \<and> (\<exists>rec.
         get_analysis_by_url hd
           (snd (save_analysis simple_netloc example_db
                   (Seo_dict (keywords_doc ''k1'' ''https://c1''))
                   (analyze_seo_quality (Seo_dict (keywords_doc ''k1'' ''https://c1''))) 40 5))
           ''https://example.com'' = Some rec
         \<and> ar_url rec = Some ''https://example.com''
         \<and> ar_title rec = ''D''
         \<and> ar_meta_description rec = ''M''
         \<and> map_of (ar_og_tags rec) = map_of [(''og:title'', ''OG'')]
         \<and> map_of (ar_twitter_tags rec) = map_of [(''twitter:card'', ''c'')]
         \<and> ar_h1_tags rec = [''H'']
         \<and> ar_seo_score rec = 40
         \<and> ar_analysis_results rec
             = analyze_seo_quality (Seo_dict (keywords_doc ''k1'' ''https://c1''))
         \<and> ar_analyzed_at rec = 5)"
proof -
  let ?D = "keywords_doc ''k1'' ''https://c1''"
  let ?A = "analyze_seo_quality (Seo_dict ?D)"
  let ?s = "save_analysis simple_netloc example_db (Seo_dict ?D) ?A 40 5"
  have h1: "?s = (True, snd ?s)"
    by (simp add: save_analysis_def example_db_def)
  have h2: "url ?D = Some ''https://example.com''"
    by (simp add: keywords_doc_def tagged_doc_def example_doc_def)
  have h3: "\<forall>r\<in>set (db_rows example_db).
          row_url r \<in> Some ` set (get_url_variations ''https://example.com'')
          \<longrightarrow> row_analyzed_at r < 5"
    by (simp add: example_db_def)
  have h4: "\<forall>rs::stored_row list. rs \<noteq> [] \<longrightarrow> hd rs \<in> set rs"
    by simp
  have f: "title ?D = ''D''" "meta_description ?D = ''M''"
    "og_tags ?D = [(''og:title'', ''OG'')]" "twitter_tags ?D = [(''twitter:card'', ''c'')]"
    "h1_tags ?D = [''H'']"
    by (simp_all add: keywords_doc_def tagged_doc_def example_doc_def)
  from save_then_get_analysis_by_url [OF h1 h2 h3 h4]
  have "\<exists>rec.
         get_analysis_by_url hd (snd ?s) ''https://example.com'' = Some rec
         \<and> ar_url rec = Some ''https://example.com''
         \<and> ar_title rec = ''D''
         \<and> ar_meta_description rec = ''M''
         \<and> map_of (ar_og_tags rec) = map_of [(''og:title'', ''OG'')]
         \<and> map_of (ar_twitter_tags rec) = map_of [(''twitter:card'', ''c'')]
         \<and> ar_h1_tags rec = [''H'']
         \<and> ar_seo_score rec = 40
         \<and> ar_analysis_results rec = ?A
         \<and> ar_analyzed_at rec = 5"
    unfolding f .
  moreover have "list_all (\<lambda>r. row_analyzed_at r < 5) (db_rows example_db)"
    by (simp add: example_db_def)
  ultimately show ?thesis using h1 h2 by blast
qed

text \<open>
  Claim C9 as stated fails for the meta keywords and the canonical URL: two documents that
  differ in exactly these two fields are read back as the same record.
\<close>

theorem read_back_loses_keywords_and_canonical:
  "get_analysis_by_url hd
     (snd (save_analysis simple_netloc example_db
             (Seo_dict (keywords_doc ''k1'' ''https://c1'')) [] 40 5))
     ''https://example.com''
   = get_analysis_by_url hd
       (snd (save_analysis simple_netloc example_db
               (Seo_dict (keywords_doc ''k2'' ''https://c2'')) [] 40 5))
       ''https://example.com''
   \<and> get_analysis_by_url hd
       (snd (save_analysis simple_netloc example_db
               (Seo_dict (keywords_doc ''k1'' ''https://c1'')) [] 40 5))
       ''https://example.com'' \<noteq> None
   \<and> meta_keywords (keywords_doc ''k1'' ''https://c1'')
       \<noteq> meta_keywords (keywords_doc ''k2'' ''https://c2'')
   \<and> canonical (keywords_doc ''k1'' ''https://c1'')
       \<noteq> canonical (keywords_doc ''k2'' ''https://c2'')"
  by code_simp

end
